theory Spec2Isabelle
  imports Complex_Main
begin

section \<open>The PPO driver script \<open>example/run_ppo_vector_multi.py\<close>\<close>

text \<open>
  The script sequences calls into an RL library.  The library objects (sampler, GAE data,
  PPO trainers, logger, optimisers, torch, the OS) are opaque: what they hand back to the
  script in one loop iteration is an input of the model (\<open>iter_input\<close>), and every call the
  script makes on them is an \<open>event\<close> appended to a trace, with the arguments the script
  passes.  Python's unbounded integers are \<open>int\<close>.  Rewards and the float hyperparameters
  are \<open>real\<close>: the model keeps the order and the arithmetic of the numbers and leaves
  rounding, infinities and NaN of IEEE floats out.
\<close>

subsection \<open>Exceptions\<close>

datatype py_error =
    IndexError
  | ZeroDivisionError
  | KeyError
  | TypeError
  | UsageError   \<comment> \<open>argparse rejects the command line and exits\<close>

subsection \<open>Rollout paths and the per-path reward (lines 134 to 141)\<close>

text \<open>
  A path is a dictionary of arrays; the script reads \<open>path['dones']\<close> and
  \<open>path['rews']\<close>.
\<close>

record path =
  dones :: "int list"
  rews :: "real list"

text \<open>\<open>inds = np.arange(len(mask)); inds = inds[mask == 1]\<close>\<close>

definition done_inds :: "int list \<Rightarrow> nat list" where
  "done_inds msk = filter (\<lambda>i. msk ! i = 1) [0..<length msk]"

text \<open>Python's \<open>xs[i:j]\<close> for non-negative \<open>i\<close>, \<open>j\<close>: out-of-range bounds are clipped.\<close>

definition slice :: "'a list \<Rightarrow> nat \<Rightarrow> nat \<Rightarrow> 'a list" where
  "slice xs i j = take (j - i) (drop i xs)"

text \<open>
  \<open>num_epi = len(inds) - 1\<close>, then
  \<open>sum(path['rews'][inds[0]:inds[-1]]) / num_epi\<close>.
  \<open>inds[0]\<close> is evaluated first and raises IndexError on an empty array.  When
  \<open>num_epi\<close> is 0 there is one index, the slice \<open>inds[0]:inds[0]\<close> is empty, the builtin
  \<open>sum\<close> returns the Python integer 0 and \<open>0 / 0\<close> raises ZeroDivisionError.
\<close>

definition path_reward :: "path \<Rightarrow> py_error + real" where
  "path_reward p =
     (let msk = dones p;
          inds = done_inds msk;
          num_epi = int (length inds) - 1
      in if inds = [] then Inl IndexError
         else let total = sum_list (slice (rews p) (hd inds) (last inds))
              in if num_epi = 0 then Inl ZeroDivisionError
                 else Inr (total / real_of_int num_epi))"

text \<open>The \<open>for path in paths\<close> loop: the first exception ends it.\<close>

fun path_rewards :: "path list \<Rightarrow> py_error + real list" where
  "path_rewards [] = Inr []"
| "path_rewards (p # ps) =
     (case path_reward p of
        Inl e \<Rightarrow> Inl e
      | Inr r \<Rightarrow> (case path_rewards ps of Inl e \<Rightarrow> Inl e | Inr rs \<Rightarrow> Inr (r # rs)))"

text \<open>\<open>np.mean\<close> of a non-empty list.\<close>

definition mean :: "real list \<Rightarrow> real" where
  "mean xs = sum_list xs / real (length xs)"

subsection \<open>Command line (lines 41 to 70)\<close>

text \<open>
  What the user typed: every flag is optional (\<open>None\<close> when absent), \<open>--record\<close> is a
  \<open>store_true\<close> switch.  The flags declared with \<open>type=int\<close> or \<open>type=float\<close> are taken after
  argparse's conversion.  Field \<open>log\<close> is \<open>log_arg\<close> and field \<open>record\<close> is \<open>record_arg\<close> here.
\<close>

record cli =
  cli_log :: "string option"
  cli_env_name :: "string option"
  cli_record :: bool
  cli_episode :: "int option"
  cli_seed :: "int option"
  cli_max_episodes :: "int option"
  cli_num_parallel :: "int option"
  cli_local_rank :: "int option"
  cli_world_size :: "int option"
  cli_max_samples_per_iter :: "int option"
  cli_epoch_per_iter :: "int option"
  cli_batch_size :: "int option"
  cli_pol_lr :: "real option"
  cli_vf_lr :: "real option"
  cli_ent_beta :: "real option"
  cli_h_size :: "int option"
  cli_cell_size :: "int option"
  cli_ppo_type :: "string option"
  cli_clip_param :: "real option"
  cli_kl_targ :: "real option"
  cli_init_kl_beta :: "real option"
  cli_gamma :: "real option"
  cli_lam :: "real option"

text \<open>The namespace \<open>args\<close>.  \<open>--local_rank\<close> has no default: it is \<open>None\<close> when absent.\<close>

record args =
  log_arg :: string
  env_name :: string
  record_arg :: bool
  episode :: int
  seed :: int
  max_episodes :: int
  num_parallel :: int
  local_rank :: "int option"
  world_size :: int
  max_samples_per_iter :: int
  epoch_per_iter :: int
  batch_size :: int
  pol_lr :: real
  vf_lr :: real
  ent_beta :: real
  h_size :: int
  cell_size :: int
  ppo_type :: string
  clip_param :: real
  kl_targ :: real
  init_kl_beta :: real
  gamma :: real
  lam :: real

definition or_default :: "'a \<Rightarrow> 'a option \<Rightarrow> 'a" where
  "or_default d v = (case v of None \<Rightarrow> d | Some x \<Rightarrow> x)"

text \<open>\<open>choices=['clip', 'kl']\<close> of \<open>--ppo_type\<close>.\<close>

definition ppo_type_choices :: "string list" where
  "ppo_type_choices = [''clip'', ''kl'']"

text \<open>
  \<open>parser.parse_args()\<close>: a given \<open>--ppo_type\<close> outside the choices is a usage error; every
  other flag takes the given value or its declared default.
\<close>

definition parse_args :: "cli \<Rightarrow> py_error + args" where
  "parse_args c =
     (if (case cli_ppo_type c of None \<Rightarrow> False | Some v \<Rightarrow> v \<notin> set ppo_type_choices)
      then Inl UsageError
      else Inr \<lparr>
        log_arg = or_default ''garbage'' (cli_log c),
        env_name = or_default ''Pendulum-v0'' (cli_env_name c),
        record_arg = cli_record c,
        episode = or_default 1000000 (cli_episode c),
        seed = or_default 256 (cli_seed c),
        max_episodes = or_default 1000000 (cli_max_episodes c),
        num_parallel = or_default 4 (cli_num_parallel c),
        local_rank = cli_local_rank c,
        world_size = or_default 4 (cli_world_size c),
        max_samples_per_iter = or_default 2048 (cli_max_samples_per_iter c),
        epoch_per_iter = or_default 4 (cli_epoch_per_iter c),
        batch_size = or_default 8 (cli_batch_size c),
        pol_lr = or_default (3 / 10000) (cli_pol_lr c),
        vf_lr = or_default (3 / 10000) (cli_vf_lr c),
        ent_beta = or_default (1 / 100) (cli_ent_beta c),
        h_size = or_default 1024 (cli_h_size c),
        cell_size = or_default 512 (cli_cell_size c),
        ppo_type = or_default ''clip'' (cli_ppo_type c),
        clip_param = or_default (2 / 10) (cli_clip_param c),
        kl_targ = or_default (1 / 100) (cli_kl_targ c),
        init_kl_beta = or_default 1 (cli_init_kl_beta c),
        gamma = or_default (995 / 1000) (cli_gamma c),
        lam = or_default 1 (cli_lam c) \<rparr>)"

subsection \<open>Calls on the outside world\<close>

text \<open>
  One constructor for each call the script makes on a library or on the OS, with the
  arguments the script passes (the objects built before, \<open>pol\<close>, \<open>vf\<close>, \<open>env\<close> and so on, are
  left out).  The first argument of \<open>TorchSave\<close> and of \<open>MkDistributedAdamW\<close> names the object:
  \<open>''pol''\<close>, \<open>''vf''\<close>, \<open>''optim_pol''\<close>, \<open>''optim_vf''\<close>.  \<open>SetDevice r\<close> is the device
  \<open>"cuda:{}".format(r)\<close>.  A rank is \<open>args.local_rank\<close> as the script passes it on.
\<close>

datatype event =
    Mkdir string
  | JsonDump string args
  | Pprint args
  | InitProcessGroup string int "int option"   \<comment> \<open>backend, world\_size, rank\<close>
  | NpSeed int
  | TorchSeed int
  | SetNumThreads int
  | SetDevice "int option"
  | AddTabularOutput string
  | MkGymEnv string string bool       \<comment> \<open>env\_name, log\_dir, record\_video\<close>
  | EnvSeed int
  | MkPolNet int int
  | MkGaussianPol
  | MkVNet int int
  | MkDeterministicVfunc
  | MkSampler int int int             \<comment> \<open>max\_samples\_per\_iter, num\_parallel, seed\<close>
  | MkDistributedAdamW string "int option" int real  \<comment> \<open>parameters of, rank, world\_size, lr\<close>
  | Sample
  | Preprocess real real bool         \<comment> \<open>gamma, lam, centerize\<close>
  | PpoClipTrain int int real real    \<comment> \<open>epoch\_per\_iter, batch\_size, clip\_param, ent\_beta\<close>
  | PpoKlTrain real real int int      \<comment> \<open>kl\_beta, kl\_targ, epoch\_per\_iter, batch\_size\<close>
  | RecordResults string "(string \<times> real) list" string int int int "real list" string
  | TorchSave string string           \<comment> \<open>state\_dict of, file\<close>

text \<open>The world outside: the paths that exist, and the calls made so far.\<close>

record world =
  fs :: "string set"
  trace :: "event list"

definition emit :: "event list \<Rightarrow> world \<Rightarrow> world" where
  "emit es w = w\<lparr>trace := trace w @ es\<rparr>"

text \<open>\<open>os.path.join(a, b)\<close> on POSIX.\<close>

definition path_join :: "string \<Rightarrow> string \<Rightarrow> string" where
  "path_join a b =
     (if b \<noteq> [] \<and> hd b = CHR ''/'' then b
      else if a = [] \<or> last a = CHR ''/'' then a @ b
      else a @ ''/'' @ b)"

text \<open>\<open>if not os.path.exists(p): os.mkdir(p)\<close>\<close>

definition mkdir_if_absent :: "string \<Rightarrow> world \<Rightarrow> world" where
  "mkdir_if_absent p w =
     (if p \<notin> fs w then emit [Mkdir p] (w\<lparr>fs := insert p (fs w)\<rparr>) else w)"

text \<open>\<open>with open(p, 'w') as f: json.dump(vars(args), f)\<close>\<close>

definition json_dump :: "string \<Rightarrow> args \<Rightarrow> world \<Rightarrow> world" where
  "json_dump p a w = emit [JsonDump p a] (w\<lparr>fs := insert p (fs w)\<rparr>)"

text \<open>\<open>torch.save(obj.state_dict(), p)\<close>\<close>

definition torch_save :: "string \<Rightarrow> string \<Rightarrow> world \<Rightarrow> world" where
  "torch_save obj p w = emit [TorchSave obj p] (w\<lparr>fs := insert p (fs w)\<rparr>)"

text \<open>An exception ends the script; the world stays as it was left.\<close>

type_synonym 'a result = "(py_error \<times> world) + 'a"

subsection \<open>Set-up (lines 72 to 113)\<close>

text \<open>
  Line 83, \<open>args.seed * (args.local_rank + 23)\<close>: TypeError when \<open>local_rank\<close> is \<open>None\<close>.
\<close>

definition derive_seed :: "int \<Rightarrow> int option \<Rightarrow> py_error + int" where
  "derive_seed s rank = (case rank of None \<Rightarrow> Inl TypeError | Some r \<Rightarrow> Inr (s * (r + 23)))"

text \<open>
  Lines 85 to 113, after the seed is derived: the process group, the seeding, the device,
  the logger's output file, the environment, the networks, the sampler and the optimisers.
\<close>

definition build_calls :: "args \<Rightarrow> event list" where
  "build_calls a =
     [InitProcessGroup ''nccl'' (world_size a) (local_rank a),
      NpSeed (seed a),
      TorchSeed (seed a),
      SetNumThreads 1,
      SetDevice (local_rank a),
      AddTabularOutput (path_join (log_arg a) ''progress.csv''),
      MkGymEnv (env_name a) (path_join (log_arg a) ''movie'') (record_arg a),
      EnvSeed (seed a),
      MkPolNet (h_size a) (cell_size a),
      MkGaussianPol,
      MkVNet (h_size a) (cell_size a),
      MkDeterministicVfunc,
      MkSampler (max_samples_per_iter a) (num_parallel a) (seed a),
      MkDistributedAdamW ''pol'' (local_rank a) (world_size a) (pol_lr a),
      MkDistributedAdamW ''vf'' (local_rank a) (world_size a) (vf_lr a)]"

text \<open>
  Lines 72 to 81: the log directory, \<open>args.json\<close>, the arguments printed by rank 0, the
  directory of the models.
\<close>

definition configure :: "args \<Rightarrow> world \<Rightarrow> world" where
  "configure a w0 =
     (let w1 = mkdir_if_absent (log_arg a) w0;
          w2 = json_dump (path_join (log_arg a) ''args.json'') a w1;
          w3 = (if local_rank a = Some 0 then emit [Pprint a] w2 else w2)
      in mkdir_if_absent (path_join (log_arg a) ''models'') w3)"

text \<open>
  Lines 72 to 113.  The result is the namespace with the new seed and the world after
  line 113.
\<close>

definition prepare :: "args \<Rightarrow> world \<Rightarrow> (args \<times> world) result" where
  "prepare a w0 =
     (let w4 = configure a w0
      in case derive_seed (seed a) (local_rank a) of
           Inl e \<Rightarrow> Inl (e, w4)
         | Inr sd \<Rightarrow>
             let a' = a\<lparr>seed := sd\<rparr>
             in Inr (a', emit (build_calls a') w4))"

subsection \<open>The training loop (lines 115 to 160)\<close>

text \<open>The variables of the loop.\<close>

record vars =
  total_epi :: int
  total_step :: int
  max_rew :: real
  kl_beta :: real

text \<open>
  What the library hands back in one iteration: the sampled paths, \<open>data.num_epi\<close> and the
  dictionary returned by the trainer that is called.
\<close>

record iter_input =
  paths :: "path list"
  num_epi :: int
  train_result :: "(string \<times> real) list"

text \<open>Lines 115 to 118.\<close>

definition init_vars :: "args \<Rightarrow> vars" where
  "init_vars a = \<lparr>total_epi = 0, total_step = 0, max_rew = - 1000000, kl_beta = init_kl_beta a\<rparr>"

text \<open>
  Lines 125 to 129: the PPO update.  The result is the new \<open>kl_beta\<close>;
  \<open>result_dict['new_kl_beta']\<close> raises KeyError when the key is missing.
\<close>

definition train :: "args \<Rightarrow> iter_input \<Rightarrow> real \<Rightarrow> world \<Rightarrow> (real \<times> world) result" where
  "train a inp klb w =
     (if ppo_type a = ''clip''
      then Inr (klb, emit [PpoClipTrain (epoch_per_iter a) (batch_size a) (clip_param a) (ent_beta a)] w)
      else let w' = emit [PpoKlTrain klb (kl_targ a) (epoch_per_iter a) (batch_size a)] w
           in case map_of (train_result inp) ''new_kl_beta'' of
                None \<Rightarrow> Inl (KeyError, w')
              | Some b \<Rightarrow> Inr (b, w'))"

definition models_file :: "args \<Rightarrow> string \<Rightarrow> string" where
  "models_file a name = path_join (path_join (log_arg a) ''models'') name"

text \<open>Lines 150 to 153 and lines 156 to 159.\<close>

definition save_max :: "args \<Rightarrow> world \<Rightarrow> world" where
  "save_max a w =
     torch_save ''optim_vf'' (models_file a ''optim_vf_max.pkl'')
       (torch_save ''optim_pol'' (models_file a ''optim_pol_max.pkl'')
         (torch_save ''vf'' (models_file a ''vf_max.pkl'')
           (torch_save ''pol'' (models_file a ''pol_max.pkl'') w)))"

definition save_last :: "args \<Rightarrow> world \<Rightarrow> world" where
  "save_last a w =
     torch_save ''optim_vf'' (models_file a ''optim_vf_last.pkl'')
       (torch_save ''optim_pol'' (models_file a ''optim_pol_last.pkl'')
         (torch_save ''vf'' (models_file a ''vf_last.pkl'')
           (torch_save ''pol'' (models_file a ''pol_last.pkl'') w)))"

text \<open>Lines 148 to 160.\<close>

definition checkpoint :: "args \<Rightarrow> real \<Rightarrow> vars \<times> world \<Rightarrow> vars \<times> world" where
  "checkpoint a mean_rew s =
     (case s of (v, w) \<Rightarrow>
        if local_rank a = Some 0
        then (if mean_rew > max_rew v
              then (v\<lparr>max_rew := mean_rew\<rparr>, save_last a (save_max a w))
              else (v, save_last a w))
        else (v, w))"

text \<open>
  One pass through the body of the \<open>while\<close> loop.  \<open>paths[0]\<close> raises IndexError on an empty
  list of paths.
\<close>

definition iteration :: "args \<Rightarrow> iter_input \<Rightarrow> vars \<times> world \<Rightarrow> (vars \<times> world) result" where
  "iteration a inp s =
     (case s of (v, w) \<Rightarrow>
        let w1 = emit [Sample] w;
            w2 = emit [Preprocess (gamma a) (lam a) True] w1
        in case train a inp (kl_beta v) w2 of
             Inl e \<Rightarrow> Inl e
           | Inr (klb, w3) \<Rightarrow>
               let v1 = v\<lparr>kl_beta := klb, total_epi := total_epi v + num_epi inp\<rparr>
               in (case paths inp of
                     [] \<Rightarrow> Inl (IndexError, w3)
                   | p0 # _ \<Rightarrow>
                       let step = int (length (paths inp)) * int (length (rews p0)) * world_size a;
                           v2 = v1\<lparr>total_step := total_step v1 + step\<rparr>
                       in (case path_rewards (paths inp) of
                             Inl e \<Rightarrow> Inl (e, w3)
                           | Inr rewards \<Rightarrow>
                               let mean_rew = mean rewards;
                                   w4 = (if local_rank a = Some 0
                                         then emit [RecordResults (log_arg a) (train_result inp)
                                                      (path_join (log_arg a) ''progress.csv'')
                                                      (total_epi v2) step (total_step v2)
                                                      rewards (env_name a)] w3
                                         else w3)
                               in Inr (checkpoint a mean_rew (v2, w4)))))"

text \<open>
  \<open>while args.max_episodes > total_epi\<close>.  The list holds what the library hands back in
  the iterations to come; \<open>None\<close> is a loop that wants another iteration when the list is
  used up, so a loop that never ends is \<open>None\<close> on every list.
\<close>

fun train_loop :: "args \<Rightarrow> iter_input list \<Rightarrow> vars \<times> world \<Rightarrow> (vars \<times> world) result option" where
  "train_loop a [] s =
     (if max_episodes a > total_epi (fst s) then None else Some (Inr s))"
| "train_loop a (inp # rest) s =
     (if max_episodes a > total_epi (fst s)
      then (case iteration a inp s of
              Inl e \<Rightarrow> Some (Inl e)
            | Inr s' \<Rightarrow> train_loop a rest s')
      else Some (Inr s))"

text \<open>The whole script, from the command line and the paths that exist at the start.\<close>

definition run :: "cli \<Rightarrow> string set \<Rightarrow> iter_input list \<Rightarrow> (vars \<times> world) result option" where
  "run c files inps =
     (let w0 = \<lparr>fs = files, trace = []\<rparr>
      in case parse_args c of
           Inl e \<Rightarrow> Some (Inl (e, w0))
         | Inr a \<Rightarrow>
             (case prepare a w0 of
                Inl e \<Rightarrow> Some (Inl e)
              | Inr (a', w) \<Rightarrow> train_loop a' inps (init_vars a', w)))"

subsection \<open>Reading a trace\<close>



text \<open>The file a call of \<open>torch.save\<close> writes.\<close>

fun saved_file :: "event \<Rightarrow> string list" where
  "saved_file (TorchSave _ p) = [p]"
| "saved_file _ = []"

definition saved_files :: "event list \<Rightarrow> string list" where
  "saved_files es = concat (map saved_file es)"





text \<open>The calls on the distributed primitives.\<close>

fun is_dist :: "event \<Rightarrow> bool" where
  "is_dist (InitProcessGroup _ _ _) = True"
| "is_dist (MkDistributedAdamW _ _ _ _) = True"
| "is_dist _ = False"

text \<open>The mean of the rewards an iteration logs.\<close>

fun logged_mean :: "event \<Rightarrow> real list" where
  "logged_mean (RecordResults _ _ _ _ _ _ rs _) = [mean rs]"
| "logged_mean _ = []"

definition logged_means :: "event list \<Rightarrow> real list" where
  "logged_means es = concat (map logged_mean es)"

text \<open>The calls of the best-reward and of the most-recent checkpoint.\<close>

definition max_files :: "args \<Rightarrow> string list" where
  "max_files a = map (models_file a)
     [''pol_max.pkl'', ''vf_max.pkl'', ''optim_pol_max.pkl'', ''optim_vf_max.pkl'']"

definition last_files :: "args \<Rightarrow> string list" where
  "last_files a = map (models_file a)
     [''pol_last.pkl'', ''vf_last.pkl'', ''optim_pol_last.pkl'', ''optim_vf_last.pkl'']"

text \<open>The calls a pass through the loop body has added to the trace.\<close>

definition new_events :: "world \<Rightarrow> world \<Rightarrow> event list" where
  "new_events w w' = drop (length (trace w)) (trace w')"

text \<open>The calls lines 72 to 81 can make.\<close>

definition config_calls :: "args \<Rightarrow> event set" where
  "config_calls a =
     {Mkdir (log_arg a), JsonDump (path_join (log_arg a) ''args.json'') a, Pprint a,
      Mkdir (path_join (log_arg a) ''models'')}"

text \<open>The call of the trainer in an iteration that starts with \<open>kl_beta = klb\<close>.\<close>

definition train_event :: "args \<Rightarrow> real \<Rightarrow> event" where
  "train_event a klb =
     (if ppo_type a = ''clip''
      then PpoClipTrain (epoch_per_iter a) (batch_size a) (clip_param a) (ent_beta a)
      else PpoKlTrain klb (kl_targ a) (epoch_per_iter a) (batch_size a))"

text \<open>The four calls of \<open>torch.save\<close> on a list of four files.\<close>

definition save_events :: "string list \<Rightarrow> event list" where
  "save_events files =
     map (\<lambda>(ob, p). TorchSave ob p) (zip [''pol'', ''vf'', ''optim_pol'', ''optim_vf''] files)"

text \<open>The call of \<open>logger.record_results\<close> in an iteration that starts from \<open>v\<close>.\<close>

definition record_event :: "args \<Rightarrow> iter_input \<Rightarrow> vars \<Rightarrow> real list \<Rightarrow> event" where
  "record_event a inp v rewards =
     (let step = int (length (paths inp)) * int (length (rews (hd (paths inp)))) * world_size a
      in RecordResults (log_arg a) (train_result inp) (path_join (log_arg a) ''progress.csv'')
           (total_epi v + num_epi inp) step (total_step v + step) rewards (env_name a))"

text \<open>
  The calls of a pass through the loop body that ends without exception, from the
  variables \<open>v\<close> at its start and the rewards it computes.
\<close>

definition iteration_events :: "args \<Rightarrow> iter_input \<Rightarrow> vars \<Rightarrow> real list \<Rightarrow> event list" where
  "iteration_events a inp v rewards =
     [Sample, Preprocess (gamma a) (lam a) True, train_event a (kl_beta v)]
     @ (if local_rank a = Some 0
        then record_event a inp v rewards
             # (if mean rewards > max_rew v then save_events (max_files a) else [])
             @ save_events (last_files a)
        else [])"




text \<open>The trace at the end of a run, whether it ends normally or by an exception.\<close>

fun result_trace :: "(vars \<times> world) result \<Rightarrow> event list" where
  "result_trace (Inl (e, w)) = trace w"
| "result_trace (Inr (v, w)) = trace w"

subsection \<open>Sample inputs\<close>

text \<open>A command line with no flag, and the namespace parsed from it.\<close>

definition no_flags :: cli where
  "no_flags = \<lparr>cli_log = None, cli_env_name = None, cli_record = False, cli_episode = None,
     cli_seed = None, cli_max_episodes = None, cli_num_parallel = None, cli_local_rank = None,
     cli_world_size = None, cli_max_samples_per_iter = None, cli_epoch_per_iter = None,
     cli_batch_size = None, cli_pol_lr = None, cli_vf_lr = None, cli_ent_beta = None,
     cli_h_size = None, cli_cell_size = None, cli_ppo_type = None, cli_clip_param = None,
     cli_kl_targ = None, cli_init_kl_beta = None, cli_gamma = None, cli_lam = None\<rparr>"

definition default_args :: args where
  "default_args = \<lparr>log_arg = ''garbage'', env_name = ''Pendulum-v0'', record_arg = False,
     episode = 1000000, seed = 256, max_episodes = 1000000, num_parallel = 4,
     local_rank = None, world_size = 4, max_samples_per_iter = 2048, epoch_per_iter = 4,
     batch_size = 8, pol_lr = 3 / 10000, vf_lr = 3 / 10000, ent_beta = 1 / 100,
     h_size = 1024, cell_size = 512, ppo_type = ''clip'', clip_param = 2 / 10,
     kl_targ = 1 / 100, init_kl_beta = 1, gamma = 995 / 1000, lam = 1\<rparr>"

text \<open>An iteration with one path of three steps, two of them done, and one episode.\<close>

definition one_path :: iter_input where
  "one_path = \<lparr>paths = [\<lparr>dones = [1, 0, 1], rews = [1, 2, 3]\<rparr>], num_epi = 1,
     train_result = [(''new_kl_beta'', 2)]\<rparr>"

definition empty_world :: world where
  "empty_world = \<lparr>fs = {}, trace = []\<rparr>"

section \<open>Properties\<close>

subsection \<open>The per-path reward\<close>

lemma done_inds_snoc:
  "done_inds (xs @ [x]) = done_inds xs @ (if x = 1 then [length xs] else [])"
proof -
  have "filter (\<lambda>i. (xs @ [x]) ! i = 1) [0..<length xs] = filter (\<lambda>i. xs ! i = 1) [0..<length xs]"
    by (rule filter_cong) (auto simp: nth_append)
  then show ?thesis
    by (simp add: done_inds_def)
qed

lemma length_done_inds: "length (done_inds msk) = count_list msk 1"
proof (induction msk rule: rev_induct)
  case Nil
  show ?case by (simp add: done_inds_def)
next
  case (snoc x xs)
  then show ?case by (simp add: done_inds_snoc)
qed

text \<open>
  C8: the per-path reward is a number exactly for a mask with at least two entries equal
  to 1, and then it is the sum of the rewards between the first and the last done index
  divided by the number of done flags minus 1; a mask with exactly one such entry raises
  ZeroDivisionError and a mask with none raises IndexError.
\<close>

theorem path_reward_defined:
  "(2 \<le> count_list (dones p) 1 \<longrightarrow>
      path_reward p =
        Inr (sum_list (slice (rews p) (hd (done_inds (dones p))) (last (done_inds (dones p))))
             / (real (count_list (dones p) 1) - 1)))
   \<and> (count_list (dones p) 1 = 1 \<longrightarrow> path_reward p = Inl ZeroDivisionError)
   \<and> (count_list (dones p) 1 = 0 \<longrightarrow> path_reward p = Inl IndexError)"
proof -
  let ?inds = "done_inds (dones p)"
  have len: "length ?inds = count_list (dones p) 1"
    by (rule length_done_inds)
  have none: "count_list (dones p) 1 = 0 \<Longrightarrow> path_reward p = Inl IndexError"
    using len by (simp add: path_reward_def Let_def)
  have one: "count_list (dones p) 1 = 1 \<Longrightarrow> path_reward p = Inl ZeroDivisionError"
  proof -
    assume c: "count_list (dones p) 1 = 1"
    then have "?inds \<noteq> []" using len by auto
    then show ?thesis using len c by (simp add: path_reward_def Let_def)
  qed
  have many: "2 \<le> count_list (dones p) 1 \<Longrightarrow>
      path_reward p = Inr (sum_list (slice (rews p) (hd ?inds) (last ?inds))
                           / (real (count_list (dones p) 1) - 1))"
  proof -
    assume c: "2 \<le> count_list (dones p) 1"
    then have ne: "?inds \<noteq> []" using len by auto
    have "int (length ?inds) - 1 \<noteq> 0" using len c by simp
    moreover have "real_of_int (int (length ?inds) - 1) = real (count_list (dones p) 1) - 1"
      using len by simp
    ultimately show ?thesis using ne by (simp add: path_reward_def Let_def)
  qed
  show ?thesis using none one many by blast
qed

theorem path_reward_defined_witness:
  "path_reward \<lparr>dones = [0, 1, 0, 0, 1], rews = [1, 2, 3, 4, 5]\<rparr> = Inr 9
   \<and> path_reward \<lparr>dones = [0, 0, 1], rews = [1, 2, 3]\<rparr> = Inl ZeroDivisionError
   \<and> path_reward \<lparr>dones = [0, 0, 0], rews = [1, 2, 3]\<rparr> = Inl IndexError"
proof -
  have a: "path_reward \<lparr>dones = [0, 1, 0, 0, 1], rews = [1, 2, 3, 4, 5]\<rparr> = Inr 9"
    using path_reward_defined [of "\<lparr>dones = [0, 1, 0, 0, 1], rews = [1, 2, 3, 4, 5]\<rparr>"]
    by (simp add: done_inds_def slice_def upt_rec)
  have b: "path_reward \<lparr>dones = [0, 0, 1], rews = [1, 2, 3]\<rparr> = Inl ZeroDivisionError"
    using path_reward_defined [of "\<lparr>dones = [0, 0, 1], rews = [1, 2, 3]\<rparr>"]
    by simp
  have c: "path_reward \<lparr>dones = [0, 0, 0], rews = [1, 2, 3]\<rparr> = Inl IndexError"
    using path_reward_defined [of "\<lparr>dones = [0, 0, 0], rews = [1, 2, 3]\<rparr>"]
    by simp
  show ?thesis using a b c by simp
qed

subsection \<open>The calls of one pass through the loop body\<close>

lemma trace_emit [simp]: "trace (emit es w) = trace w @ es"
  by (simp add: emit_def)

lemma fs_emit [simp]: "fs (emit es w) = fs w"
  by (simp add: emit_def)

lemma trace_torch_save [simp]: "trace (torch_save ob p w) = trace w @ [TorchSave ob p]"
  by (simp add: torch_save_def)

lemma trace_save_max: "trace (save_max a w) = trace w @ save_events (max_files a)"
  by (simp add: save_max_def save_events_def max_files_def)

lemma trace_save_last: "trace (save_last a w) = trace w @ save_events (last_files a)"
  by (simp add: save_last_def save_events_def last_files_def)

lemma train_Inr:
  assumes "train a inp klb w = Inr (k', w')"
  shows "w' = emit [train_event a klb] w"
    and "ppo_type a = ''clip'' \<Longrightarrow> k' = klb"
    and "ppo_type a \<noteq> ''clip'' \<Longrightarrow> map_of (train_result inp) ''new_kl_beta'' = Some k'"
  using assms by (auto simp: train_def train_event_def Let_def split: if_splits option.splits)

lemma train_Inl:
  assumes "train a inp klb w = Inl (e, w')"
  shows "w' = emit [train_event a klb] w" and "e = KeyError" and "ppo_type a \<noteq> ''clip''"
    and "map_of (train_result inp) ''new_kl_beta'' = None"
  using assms by (auto simp: train_def train_event_def Let_def split: if_splits option.splits)

lemma checkpoint_rank0:
  assumes "checkpoint a m (v, w) = (v', w')" and "local_rank a = Some 0"
  shows "trace w' = trace w @ (if m > max_rew v then save_events (max_files a) else [])
                     @ save_events (last_files a)"
    and "v' = v\<lparr>max_rew := max (max_rew v) m\<rparr>"
  using assms by (auto simp: checkpoint_def trace_save_max trace_save_last max_def split: if_splits)

lemma checkpoint_other:
  assumes "local_rank a \<noteq> Some 0"
  shows "checkpoint a m s = s"
  using assms by (simp add: checkpoint_def split: prod.splits)


lemma iteration_Inr:
  assumes "iteration a inp (v, w) = Inr (v', w')"
  shows "\<exists>klb w3 rewards.
     train a inp (kl_beta v) (emit [Preprocess (gamma a) (lam a) True] (emit [Sample] w)) = Inr (klb, w3)
   \<and> paths inp \<noteq> []
   \<and> path_rewards (paths inp) = Inr rewards
   \<and> checkpoint a (mean rewards)
        (v\<lparr>kl_beta := klb, total_epi := total_epi v + num_epi inp,
           total_step := total_step v
              + int (length (paths inp)) * int (length (rews (hd (paths inp)))) * world_size a\<rparr>,
         if local_rank a = Some 0 then emit [record_event a inp v rewards] w3 else w3) = (v', w')"
proof (cases "train a inp (kl_beta v) (emit [Preprocess (gamma a) (lam a) True] (emit [Sample] w))")
  case (Inl e)
  with assms show ?thesis by (simp add: iteration_def Let_def)
next
  case (Inr kw)
  obtain klb w3 where kw: "kw = (klb, w3)" by (cases kw)
  show ?thesis
  proof (cases "paths inp")
    case Nil
    with assms Inr kw show ?thesis by (simp add: iteration_def Let_def)
  next
    case (Cons p0 ps)
    show ?thesis
    proof (cases "path_rewards (paths inp)")
      case (Inl e)
      with assms Inr kw Cons show ?thesis by (simp add: iteration_def Let_def)
    next
      case rw: (Inr rewards)
      from assms Inr kw Cons rw show ?thesis
        by (simp add: iteration_def record_event_def Let_def split: if_splits)
    qed
  qed
qed

lemma iteration_trace:
  assumes "iteration a inp (v, w) = Inr (v', w')"
  shows "\<exists>rewards.
       path_rewards (paths inp) = Inr rewards
     \<and> paths inp \<noteq> []
     \<and> trace w' = trace w @ iteration_events a inp v rewards
     \<and> total_epi v' = total_epi v + num_epi inp
     \<and> max_rew v' = (if local_rank a = Some 0 then max (max_rew v) (mean rewards) else max_rew v)
     \<and> (if ppo_type a = ''clip'' then kl_beta v' = kl_beta v
         else map_of (train_result inp) ''new_kl_beta'' = Some (kl_beta v'))"
proof -
  from iteration_Inr [OF assms] obtain klb w3 rewards where
    tr: "train a inp (kl_beta v) (emit [Preprocess (gamma a) (lam a) True] (emit [Sample] w)) = Inr (klb, w3)"
    and ne: "paths inp \<noteq> []"
    and rw: "path_rewards (paths inp) = Inr rewards"
    and ck: "checkpoint a (mean rewards)
        (v\<lparr>kl_beta := klb, total_epi := total_epi v + num_epi inp,
           total_step := total_step v
              + int (length (paths inp)) * int (length (rews (hd (paths inp)))) * world_size a\<rparr>,
         if local_rank a = Some 0 then emit [record_event a inp v rewards] w3 else w3) = (v', w')"
    by blast
  have w3: "trace w3 = trace w @ [Sample, Preprocess (gamma a) (lam a) True, train_event a (kl_beta v)]"
    using train_Inr(1) [OF tr] by simp
  have kl: "if ppo_type a = ''clip'' then klb = kl_beta v
            else map_of (train_result inp) ''new_kl_beta'' = Some klb"
    using train_Inr(2,3) [OF tr] by simp
  show ?thesis
  proof (cases "local_rank a = Some 0")
    case True
    from ck True have ck': "checkpoint a (mean rewards)
        (v\<lparr>kl_beta := klb, total_epi := total_epi v + num_epi inp,
           total_step := total_step v
              + int (length (paths inp)) * int (length (rews (hd (paths inp)))) * world_size a\<rparr>,
         emit [record_event a inp v rewards] w3) = (v', w')"
      by simp
    from checkpoint_rank0 [OF ck' True] w3 kl rw ne True show ?thesis
      by (simp add: iteration_events_def)
  next
    case False
    from ck False have "v' = v\<lparr>kl_beta := klb, total_epi := total_epi v + num_epi inp,
           total_step := total_step v
              + int (length (paths inp)) * int (length (rews (hd (paths inp)))) * world_size a\<rparr>"
      and "w' = w3"
      by (simp_all add: checkpoint_other)
    with w3 kl rw ne False show ?thesis
      by (simp add: iteration_events_def)
  qed
qed

lemma iteration_Inl:
  assumes "iteration a inp (v, w) = Inl (e, w')"
  shows "trace w' = trace w @ [Sample, Preprocess (gamma a) (lam a) True, train_event a (kl_beta v)]"
proof (cases "train a inp (kl_beta v) (emit [Preprocess (gamma a) (lam a) True] (emit [Sample] w))")
  case (Inl ew)
  obtain e0 w0 where ew: "ew = (e0, w0)" by (cases ew)
  from Inl ew have t: "train a inp (kl_beta v)
      (emit [Preprocess (gamma a) (lam a) True] (emit [Sample] w)) = Inl (e0, w0)" by simp
  from assms Inl ew have "w' = w0" by (simp add: iteration_def Let_def)
  with train_Inl(1) [OF t] show ?thesis by simp
next
  case (Inr kw)
  obtain klb w3 where kw: "kw = (klb, w3)" by (cases kw)
  from Inr kw have t: "train a inp (kl_beta v)
      (emit [Preprocess (gamma a) (lam a) True] (emit [Sample] w)) = Inr (klb, w3)" by simp
  from assms Inr kw have "w' = w3"
    by (simp add: iteration_def Let_def split: list.splits sum.splits)
  with train_Inr(1) [OF t] show ?thesis by simp
qed

lemma iteration_succeeds:
  assumes "path_rewards (paths inp) = Inr rewards" and "paths inp \<noteq> []"
    and "ppo_type a = ''clip'' \<or> map_of (train_result inp) ''new_kl_beta'' \<noteq> None"
  shows "\<exists>v' w'. iteration a inp (v, w) = Inr (v', w')"
proof -
  have "\<exists>klb w3. train a inp (kl_beta v)
      (emit [Preprocess (gamma a) (lam a) True] (emit [Sample] w)) = Inr (klb, w3)"
    using assms(3) by (cases "ppo_type a = ''clip''") (auto simp: train_def Let_def)
  then obtain klb w3 where
    "train a inp (kl_beta v) (emit [Preprocess (gamma a) (lam a) True] (emit [Sample] w)) = Inr (klb, w3)"
    by blast
  moreover obtain p0 ps where "paths inp = p0 # ps" using assms(2) by (cases "paths inp") auto
  ultimately show ?thesis using assms(1)
    by (simp add: iteration_def Let_def split: prod.splits)
qed

subsection \<open>The set-up and the whole run\<close>

lemma trace_mkdir_if_absent:
  "trace (mkdir_if_absent p w) = trace w @ (if p \<in> fs w then [] else [Mkdir p])"
  by (simp add: mkdir_if_absent_def)

lemma trace_json_dump: "trace (json_dump p a w) = trace w @ [JsonDump p a]"
  by (simp add: json_dump_def)

lemma fs_mkdir_if_absent: "fs (mkdir_if_absent p w) = insert p (fs w)"
  by (auto simp: mkdir_if_absent_def)

lemma fs_json_dump: "fs (json_dump p a w) = insert p (fs w)"
  by (simp add: json_dump_def)

lemma configure_trace:
  "\<exists>cfg. trace (configure a w) = trace w @ cfg \<and> set cfg \<subseteq> config_calls a
      \<and> JsonDump (path_join (log_arg a) ''args.json'') a \<in> set cfg
      \<and> (log_arg a \<notin> fs w \<longrightarrow> Mkdir (log_arg a) \<in> set cfg)"
  by (simp add: configure_def Let_def trace_mkdir_if_absent trace_json_dump config_calls_def)

lemma prepare_Inr:
  assumes "prepare a w0 = Inr (a', w)"
  shows "\<exists>r. local_rank a = Some r \<and> a' = a\<lparr>seed := seed a * (r + 23)\<rparr>"
    and "trace w = trace (configure a w0) @ build_calls a'"
  using assms
  by (auto simp: prepare_def derive_seed_def Let_def split: option.splits)


lemma prepare_succeeds:
  assumes "local_rank a = Some r"
  shows "\<exists>w. prepare a w0 = Inr (a\<lparr>seed := seed a * (r + 23)\<rparr>, w)"
  using assms by (simp add: prepare_def derive_seed_def Let_def)

lemma parse_args_Inr:
  assumes "parse_args c = Inr a"
  shows "local_rank a = cli_local_rank c" and "seed a = or_default 256 (cli_seed c)"
    and "world_size a = or_default 4 (cli_world_size c)"
    and "max_episodes a = or_default 1000000 (cli_max_episodes c)"
    and "pol_lr a = or_default (3 / 10000) (cli_pol_lr c)"
    and "vf_lr a = or_default (3 / 10000) (cli_vf_lr c)"
    and "log_arg a = or_default ''garbage'' (cli_log c)"
    and "ppo_type a = or_default ''clip'' (cli_ppo_type c)"
  using assms by (auto simp: parse_args_def split: if_splits)

lemma run_Some_Inr:
  assumes "run c files inps = Some (Inr s')"
  shows "\<exists>a a' w. parse_args c = Inr a \<and> prepare a \<lparr>fs = files, trace = []\<rparr> = Inr (a', w)
           \<and> train_loop a' inps (init_vars a', w) = Some (Inr s')"
  using assms by (auto simp: run_def Let_def split: sum.splits prod.splits)

subsection \<open>Reading the calls of the loop body\<close>

lemma new_events_append: "trace w' = trace w @ es \<Longrightarrow> new_events w w' = es"
  by (simp add: new_events_def)

lemma saved_files_append: "saved_files (xs @ ys) = saved_files xs @ saved_files ys"
  by (simp add: saved_files_def)

lemma saved_files_Nil: "saved_files [] = []"
  by (simp add: saved_files_def)

lemma saved_files_Cons: "saved_files (e # es) = saved_file e @ saved_files es"
  by (simp add: saved_files_def)

lemma saved_file_train: "saved_file (train_event a k) = []"
  by (simp add: train_event_def)

lemma saved_file_record: "saved_file (record_event a inp v rs) = []"
  by (simp add: record_event_def Let_def)

lemma saved_files_max: "saved_files (save_events (max_files a)) = max_files a"
  by (simp add: saved_files_def save_events_def max_files_def)

lemma saved_files_last: "saved_files (save_events (last_files a)) = last_files a"
  by (simp add: saved_files_def save_events_def last_files_def)

lemma saved_files_iteration:
  "saved_files (iteration_events a inp v rs) =
     (if local_rank a = Some 0
      then (if mean rs > max_rew v then max_files a else []) @ last_files a
      else [])"
  by (simp add: iteration_events_def saved_files_append saved_files_max saved_files_last
        saved_files_Cons saved_files_Nil saved_file_train saved_file_record)

lemma train_loop_invariant:
  assumes "train_loop a inps s = Some (Inr s')" and "P s"
    and step: "\<And>inp t t'. P t \<Longrightarrow> iteration a inp t = Inr t' \<Longrightarrow> P t'"
  shows "P s'"
  using assms(1,2)
proof (induction inps arbitrary: s)
  case Nil
  then show ?case by (simp split: if_splits)
next
  case (Cons inp rest)
  show ?case
  proof (cases "max_episodes a > total_epi (fst s)")
    case False
    with Cons.prems show ?thesis by simp
  next
    case True
    with Cons.prems obtain t where it: "iteration a inp s = Inr t"
      and rest: "train_loop a rest t = Some (Inr s')"
      by (auto split: sum.splits)
    from step [OF Cons.prems(2) it] have "P t" .
    from Cons.IH [OF rest this] show ?thesis .
  qed
qed

subsection \<open>The sample inputs evaluated\<close>

lemma one_path_rewards: "path_rewards (paths one_path) = Inr [3]"
proof -
  have d: "done_inds [1, 0, 1] = [0, 2]"
    by (simp add: done_inds_def upt_rec)
  have "path_reward \<lparr>dones = [1, 0, 1], rews = [1, 2, 3]\<rparr> = Inr 3"
    by (simp add: path_reward_def d slice_def)
  then show ?thesis by (simp add: one_path_def)
qed

lemma one_path_paths: "paths one_path \<noteq> []"
  by (simp add: one_path_def)


lemma one_path_num_epi: "num_epi one_path = 1"
  by (simp add: one_path_def)

subsection \<open>A sample run\<close>

lemma parse_sample:
  "parse_args (no_flags\<lparr>cli_local_rank := Some r, cli_max_episodes := Some 1\<rparr>)
     = Inr (default_args\<lparr>local_rank := Some r, max_episodes := 1\<rparr>)"
  by (simp add: parse_args_def no_flags_def default_args_def or_default_def)

lemma run_one_path:
  "\<exists>vn wn. run (no_flags\<lparr>cli_local_rank := Some r, cli_max_episodes := Some 1\<rparr>) files [one_path]
             = Some (Inr (vn, wn))"
proof -
  let ?a = "default_args\<lparr>local_rank := Some r, max_episodes := 1\<rparr>"
  let ?a' = "?a\<lparr>seed := seed ?a * (r + 23)\<rparr>"
  have "local_rank ?a = Some r" by simp
  from prepare_succeeds [OF this, of "\<lparr>fs = files, trace = []\<rparr>"]
  obtain w where pr: "prepare ?a \<lparr>fs = files, trace = []\<rparr> = Inr (?a', w)" by blast
  have "ppo_type ?a' = ''clip''" by (simp add: default_args_def)
  with iteration_succeeds [OF one_path_rewards one_path_paths, of ?a']
  obtain v' w' where it: "iteration ?a' one_path (init_vars ?a', w) = Inr (v', w')" by blast
  from iteration_trace [OF it] have "total_epi v' = 1"
    by (auto simp: init_vars_def one_path_num_epi)
  with it have "train_loop ?a' [one_path] (init_vars ?a', w) = Some (Inr (v', w'))"
    by (simp add: init_vars_def)
  with pr show ?thesis
    by (simp add: run_def parse_sample)
qed

subsection \<open>Invariants of the loop on the trace\<close>

lemma train_loop_trace_invariant:
  assumes "train_loop a inps s = Some r" and "P (trace (snd s))"
    and ok: "\<And>inp v w v' w'. P (trace w) \<Longrightarrow> iteration a inp (v, w) = Inr (v', w') \<Longrightarrow> P (trace w')"
    and err: "\<And>inp v w e w'. P (trace w) \<Longrightarrow> iteration a inp (v, w) = Inl (e, w') \<Longrightarrow> P (trace w')"
  shows "P (result_trace r)"
  using assms(1,2)
proof (induction inps arbitrary: s)
  case Nil
  then show ?case by (cases s) (auto split: if_splits)
next
  case (Cons inp rest)
  obtain v w where s: "s = (v, w)" by (cases s)
  show ?case
  proof (cases "max_episodes a > total_epi (fst s)")
    case False
    with Cons.prems s show ?thesis by auto
  next
    case True
    show ?thesis
    proof (cases "iteration a inp s")
      case (Inl ew)
      obtain e w' where ew: "ew = (e, w')" by (cases ew)
      from Inl ew s have "iteration a inp (v, w) = Inl (e, w')" by simp
      from err [OF _ this] Cons.prems(2) s have "P (trace w')" by simp
      moreover from Cons.prems(1) True Inl ew have "r = Inl (e, w')" by simp
      ultimately show ?thesis by simp
    next
      case (Inr t)
      obtain v' w' where t: "t = (v', w')" by (cases t)
      from Inr t s have "iteration a inp (v, w) = Inr (v', w')" by simp
      from ok [OF _ this] Cons.prems(2) s have "P (trace (snd t))" using t by simp
      moreover from Cons.prems(1) True Inr have "train_loop a rest t = Some r" by simp
      ultimately show ?thesis by (rule Cons.IH [rotated])
    qed
  qed
qed

subsection \<open>Checkpoints\<close>



subsection \<open>The episode budget\<close>

text \<open>
  C3: the loop runs no iteration once \<open>total_epi\<close> has reached \<open>max_episodes\<close>; an
  iteration adds \<open>data.num_epi\<close> to \<open>total_epi\<close>; and when every iteration contributes at
  least one episode, the loop ends after at most \<open>max_episodes - total_epi\<close> iterations,
  by an exception or with \<open>total_epi\<close> at least \<open>max_episodes\<close>.
\<close>

theorem loop_terminates:
  "(\<not> max_episodes a > total_epi (fst s) \<longrightarrow> train_loop a inps s = Some (Inr s))
   \<and> (iteration a inp (v, w) = Inr (v', w') \<longrightarrow> total_epi v' = total_epi v + num_epi inp)
   \<and> (list_all (\<lambda>i. 1 \<le> num_epi i) inps \<and> max_episodes a - total_epi (fst s) \<le> int (length inps)
        \<longrightarrow> (\<exists>r. train_loop a inps s = Some r
                 \<and> (\<forall>s'. r = Inr s' \<longrightarrow> max_episodes a \<le> total_epi (fst s'))))"
proof (intro conjI impI)
  assume "\<not> max_episodes a > total_epi (fst s)"
  then show "train_loop a inps s = Some (Inr s)" by (cases inps) simp_all
next
  assume "iteration a inp (v, w) = Inr (v', w')"
  from iteration_trace [OF this] show "total_epi v' = total_epi v + num_epi inp" by blast
next
  assume "list_all (\<lambda>i. 1 \<le> num_epi i) inps \<and> max_episodes a - total_epi (fst s) \<le> int (length inps)"
  then show "\<exists>r. train_loop a inps s = Some r
                 \<and> (\<forall>s'. r = Inr s' \<longrightarrow> max_episodes a \<le> total_epi (fst s'))"
  proof (induction inps arbitrary: s)
    case Nil
    then show ?case by auto
  next
    case (Cons inp rest)
    show ?case
    proof (cases "max_episodes a > total_epi (fst s)")
      case False
      then show ?thesis by auto
    next
      case True
      show ?thesis
      proof (cases "iteration a inp s")
        case (Inl e)
        with True show ?thesis by simp
      next
        case (Inr t)
        obtain v0 w0 where s: "s = (v0, w0)" by (cases s)
        obtain v1 w1 where t: "t = (v1, w1)" by (cases t)
        from Inr s t have "iteration a inp (v0, w0) = Inr (v1, w1)" by simp
        from iteration_trace [OF this] have "total_epi v1 = total_epi v0 + num_epi inp" by blast
        moreover from Cons.prems have "1 \<le> num_epi inp" by simp
        ultimately have "max_episodes a - total_epi (fst t) \<le> int (length rest)"
          using Cons.prems s t by simp
        moreover from Cons.prems have "list_all (\<lambda>i. 1 \<le> num_epi i) rest" by simp
        ultimately have "\<exists>r. train_loop a rest t = Some r
                 \<and> (\<forall>s'. r = Inr s' \<longrightarrow> max_episodes a \<le> total_epi (fst s'))"
          using Cons.IH by blast
        with True Inr show ?thesis by simp
      qed
    qed
  qed
qed

theorem loop_terminates_witness:
  "list_all (\<lambda>i. 1 \<le> num_epi i) [one_path]
   \<and> max_episodes (default_args\<lparr>max_episodes := 1\<rparr>) - total_epi (fst (init_vars default_args, empty_world))
       \<le> int (length [one_path])
   \<and> (\<exists>r. train_loop (default_args\<lparr>max_episodes := 1\<rparr>) [one_path] (init_vars default_args, empty_world) = Some r
          \<and> (\<forall>s'. r = Inr s'
                \<longrightarrow> max_episodes (default_args\<lparr>max_episodes := 1\<rparr>) \<le> total_epi (fst s')))"
proof -
  let ?a = "default_args\<lparr>max_episodes := 1\<rparr>"
  let ?s = "(init_vars default_args, empty_world)"
  have h: "list_all (\<lambda>i. 1 \<le> num_epi i) [one_path]
   \<and> max_episodes ?a - total_epi (fst ?s) \<le> int (length [one_path])"
    by (simp add: one_path_num_epi init_vars_def)
  from loop_terminates [where a = ?a and s = ?s and inps = "[one_path]"]
  have "list_all (\<lambda>i. 1 \<le> num_epi i) [one_path]
          \<and> max_episodes ?a - total_epi (fst ?s) \<le> int (length [one_path])
        \<longrightarrow> (\<exists>r. train_loop ?a [one_path] ?s = Some r
                 \<and> (\<forall>s'. r = Inr s' \<longrightarrow> max_episodes ?a \<le> total_epi (fst s')))"
    by (rule conjunct2 [THEN conjunct2])
  with h show ?thesis by blast
qed

subsection \<open>The PPO variant\<close>




subsection \<open>The running maximum\<close>

lemma path_join_relative:
  "b \<noteq> [] \<Longrightarrow> hd b \<noteq> CHR ''/'' \<Longrightarrow>
     path_join x b = (if x = [] \<or> last x = CHR ''/'' then x else x @ ''/'') @ b"
  by (simp add: path_join_def)

lemma models_file_eq_iff:
  assumes "n \<noteq> []" "hd n \<noteq> CHR ''/''" "m \<noteq> []" "hd m \<noteq> CHR ''/''"
  shows "models_file a n = models_file a m \<longleftrightarrow> n = m"
  using assms by (simp add: models_file_def path_join_relative [of n] path_join_relative [of m])

lemma max_last_disjoint: "set (max_files a) \<inter> set (last_files a) = {}"
  by (simp add: max_files_def last_files_def models_file_eq_iff)

lemma logged_means_append: "logged_means (xs @ ys) = logged_means xs @ logged_means ys"
  by (simp add: logged_means_def)

lemma logged_means_iteration:
  "logged_means (iteration_events a inp v rs) = (if local_rank a = Some 0 then [mean rs] else [])"
  by (auto simp: logged_means_def iteration_events_def train_event_def record_event_def
      save_events_def max_files_def last_files_def Let_def)

lemma logged_means_build: "logged_means (build_calls a) = []"
  by (simp add: logged_means_def build_calls_def)

lemma logged_means_config: "set cfg \<subseteq> config_calls a \<Longrightarrow> logged_means cfg = []"
proof (induction cfg)
  case Nil
  show ?case by (simp add: logged_means_def)
next
  case (Cons e es)
  then have "e \<in> config_calls a" and "logged_means es = []" by simp_all
  then show ?case by (auto simp: logged_means_def config_calls_def)
qed

lemma Max_snoc:
  "Max (insert c (set (xs @ [m]))) = max (Max (insert c (set xs))) (m::real)"
proof -
  have "insert c (set (xs @ [m])) = insert m (insert c (set xs))" by auto
  then show ?thesis by (simp add: max.commute)
qed

text \<open>
  C9: \<open>max_rew\<close> never decreases in an iteration.  In an iteration the rank-0 process
  completes, the new \<open>max_rew\<close> is the maximum of the old one and the mean reward the
  iteration logs, and the best-reward files are written when \<open>max_rew\<close> strictly increases
  and not written otherwise (they are not among the most-recent files).  At the end of a
  run of the rank-0 process, \<open>max_rew\<close> is the maximum of \<open>-1e6\<close> and all the mean rewards
  logged.
\<close>

theorem max_rew_running_max:
  "(iteration a inp (v, w) = Inr (v', w') \<longrightarrow>
      max_rew v \<le> max_rew v'
      \<and> (local_rank a = Some 0 \<longrightarrow>
           (\<exists>m. logged_means (new_events w w') = [m] \<and> max_rew v' = max (max_rew v) m)
           \<and> (max_rew v < max_rew v' \<longrightarrow>
                 saved_files (new_events w w') = max_files a @ last_files a)
           \<and> (\<not> max_rew v < max_rew v' \<longrightarrow> saved_files (new_events w w') = last_files a)))
   \<and> set (max_files a) \<inter> set (last_files a) = {}
   \<and> (run c files inps = Some (Inr (vn, wn)) \<and> cli_local_rank c = Some 0 \<longrightarrow>
        max_rew vn = Max (insert (- 1000000) (set (logged_means (trace wn)))))"
proof (intro conjI impI)
  assume it: "iteration a inp (v, w) = Inr (v', w')"
  from iteration_trace [OF it] obtain rewards where
    tr: "trace w' = trace w @ iteration_events a inp v rewards"
    and mx: "max_rew v' = (if local_rank a = Some 0 then max (max_rew v) (mean rewards) else max_rew v)"
    by blast
  from mx show "max_rew v \<le> max_rew v'" by simp
  assume r0: "local_rank a = Some 0"
  from new_events_append [OF tr] r0 mx
  show "\<exists>m. logged_means (new_events w w') = [m] \<and> max_rew v' = max (max_rew v) m"
    by (simp add: logged_means_iteration)
  from new_events_append [OF tr] r0
  have sf: "saved_files (new_events w w') =
      (if mean rewards > max_rew v then max_files a else []) @ last_files a"
    by (simp add: saved_files_iteration)
  {
    assume "max_rew v < max_rew v'"
    with mx r0 have "mean rewards > max_rew v" by (simp add: max_def split: if_splits)
    with sf show "saved_files (new_events w w') = max_files a @ last_files a" by simp
  }
  {
    assume "\<not> max_rew v < max_rew v'"
    with mx r0 have "\<not> mean rewards > max_rew v" by (simp add: max_def split: if_splits)
    with sf show "saved_files (new_events w w') = last_files a" by simp
  }
next
  show "set (max_files a) \<inter> set (last_files a) = {}" by (rule max_last_disjoint)
next
  assume "run c files inps = Some (Inr (vn, wn)) \<and> cli_local_rank c = Some 0"
  then have run: "run c files inps = Some (Inr (vn, wn))" and c0: "cli_local_rank c = Some 0"
    by simp_all
  from run_Some_Inr [OF run] obtain a0 a' w0 where
    pa: "parse_args c = Inr a0"
    and pr: "prepare a0 \<lparr>fs = files, trace = []\<rparr> = Inr (a', w0)"
    and lp: "train_loop a' inps (init_vars a', w0) = Some (Inr (vn, wn))"
    by blast
  from prepare_Inr [OF pr] parse_args_Inr(1) [OF pa] c0
  have r0: "local_rank a' = Some 0"
    and tr0: "trace w0 = trace (configure a0 \<lparr>fs = files, trace = []\<rparr>) @ build_calls a'"
    by auto
  from configure_trace [of a0 "\<lparr>fs = files, trace = []\<rparr>"] obtain cfg where
    "trace (configure a0 \<lparr>fs = files, trace = []\<rparr>) = cfg" and "set cfg \<subseteq> config_calls a0"
    by auto
  with tr0 have "logged_means (trace w0) = []"
    by (simp add: logged_means_append logged_means_build logged_means_config)
  then have init: "max_rew (fst (init_vars a', w0))
      = Max (insert (- 1000000) (set (logged_means (trace (snd (init_vars a', w0))))))"
    by (simp add: init_vars_def)
  have "max_rew (fst (vn, wn)) = Max (insert (- 1000000) (set (logged_means (trace (snd (vn, wn))))))"
  proof (rule train_loop_invariant [OF lp,
        where P = "\<lambda>s. max_rew (fst s) = Max (insert (- 1000000) (set (logged_means (trace (snd s)))))"])
    show "max_rew (fst (init_vars a', w0))
      = Max (insert (- 1000000) (set (logged_means (trace (snd (init_vars a', w0))))))"
      by (rule init)
  next
    fix inp t t'
    assume inv: "max_rew (fst t) = Max (insert (- 1000000) (set (logged_means (trace (snd t)))))"
      and it: "iteration a' inp t = Inr t'"
    obtain v w where t: "t = (v, w)" by (cases t)
    obtain v' w' where t': "t' = (v', w')" by (cases t')
    from it t t' have "iteration a' inp (v, w) = Inr (v', w')" by simp
    from iteration_trace [OF this] r0 obtain rewards where
      tr: "trace w' = trace w @ iteration_events a' inp v rewards"
      and mx: "max_rew v' = max (max_rew v) (mean rewards)"
      by auto
    from tr r0 have lm: "logged_means (trace w') = logged_means (trace w) @ [mean rewards]"
      by (simp add: logged_means_append logged_means_iteration)
    have "Max (insert (- 1000000) (set (logged_means (trace w'))))
        = max (Max (insert (- 1000000) (set (logged_means (trace w))))) (mean rewards)"
      unfolding lm by (rule Max_snoc)
    with inv t t' mx show "max_rew (fst t') = Max (insert (- 1000000) (set (logged_means (trace (snd t')))))"
      by simp
  qed
  then show "max_rew vn = Max (insert (- 1000000) (set (logged_means (trace wn))))" by simp
qed

theorem max_rew_running_max_witness:
  "(\<exists>v' w'. iteration (default_args\<lparr>local_rank := Some 0\<rparr>) one_path
               (init_vars default_args, empty_world) = Inr (v', w')
       \<and> max_rew (init_vars default_args) < max_rew v'
       \<and> saved_files (new_events empty_world w')
           = max_files (default_args\<lparr>local_rank := Some 0\<rparr>)
             @ last_files (default_args\<lparr>local_rank := Some 0\<rparr>))
   \<and> (\<exists>vn wn. run (no_flags\<lparr>cli_local_rank := Some 0, cli_max_episodes := Some 1\<rparr>) {} [one_path]
                 = Some (Inr (vn, wn))
       \<and> max_rew vn = Max (insert (- 1000000) (set (logged_means (trace wn)))))"
proof -
  let ?a = "default_args\<lparr>local_rank := Some 0\<rparr>"
  let ?c = "no_flags\<lparr>cli_local_rank := Some 0, cli_max_episodes := Some 1\<rparr>"
  have "ppo_type ?a = ''clip''" by (simp add: default_args_def)
  with iteration_succeeds [OF one_path_rewards one_path_paths, of ?a]
  obtain v' w' where it: "iteration ?a one_path (init_vars default_args, empty_world) = Inr (v', w')"
    by blast
  from iteration_trace [OF it] one_path_rewards
  have "max_rew v' = max (max_rew (init_vars default_args)) (mean [3])" by auto
  then have up: "max_rew (init_vars default_args) < max_rew v'"
    by (simp add: init_vars_def mean_def)
  from run_one_path [of 0 "{}"] obtain vn wn where run: "run ?c {} [one_path] = Some (Inr (vn, wn))"
    by blast
  have c0: "cli_local_rank ?c = Some 0" by simp
  have r0: "local_rank ?a = Some 0" by simp
  from max_rew_running_max [where a = ?a and inp = one_path and v = "init_vars default_args"
      and w = empty_world and v' = v' and w' = w' and c = ?c and files = "{}"
      and inps = "[one_path]" and vn = vn and wn = wn] it r0 up run c0
  have "saved_files (new_events empty_world w') = max_files ?a @ last_files ?a"
    and "max_rew vn = Max (insert (- 1000000) (set (logged_means (trace wn))))"
    by blast+
  with it up run show ?thesis by blast
qed

subsection \<open>The distributed primitives\<close>

lemma prepare_new_events:
  assumes "prepare a w0 = Inr (a', w)"
  shows "\<exists>cfg. new_events w0 w = cfg @ build_calls a' \<and> set cfg \<subseteq> config_calls a
           \<and> trace w = trace w0 @ cfg @ build_calls a'"
proof -
  from configure_trace [of a w0] obtain cfg where
    "trace (configure a w0) = trace w0 @ cfg" and "set cfg \<subseteq> config_calls a"
    by blast
  with prepare_Inr(2) [OF assms] show ?thesis
    by (auto simp: new_events_def)
qed

lemma is_dist_config: "set cfg \<subseteq> config_calls a \<Longrightarrow> filter is_dist cfg = []"
  by (induction cfg) (auto simp: config_calls_def)

lemma is_dist_build:
  "filter is_dist (build_calls a) =
     [InitProcessGroup ''nccl'' (world_size a) (local_rank a),
      MkDistributedAdamW ''pol'' (local_rank a) (world_size a) (pol_lr a),
      MkDistributedAdamW ''vf'' (local_rank a) (world_size a) (vf_lr a)]"
  by (simp add: build_calls_def)

lemma is_dist_iteration: "filter is_dist (iteration_events a inp v rs) = []"
  by (auto simp: iteration_events_def train_event_def record_event_def save_events_def
      max_files_def last_files_def Let_def)

text \<open>
  C6: the calls of the set-up on the distributed primitives are \<open>init_process_group\<close> with
  the world size and the rank of the namespace, and the two \<open>DistributedAdamW\<close> with the
  same rank and world size; an iteration makes no such call; so in a whole run that ends
  normally these three calls are the only ones, and they carry the values of
  \<open>--world_size\<close> (4 when absent) and \<open>--local_rank\<close>.
\<close>

theorem dist_config:
  "(prepare a w0 = Inr (a', w) \<longrightarrow>
      filter is_dist (new_events w0 w) =
        [InitProcessGroup ''nccl'' (world_size a) (local_rank a),
         MkDistributedAdamW ''pol'' (local_rank a) (world_size a) (pol_lr a),
         MkDistributedAdamW ''vf'' (local_rank a) (world_size a) (vf_lr a)])
   \<and> (iteration a inp (v, w1) = Inr (v', w2) \<longrightarrow> filter is_dist (new_events w1 w2) = [])
   \<and> (run c files inps = Some (Inr (vn, wn)) \<longrightarrow>
        filter is_dist (trace wn) =
          [InitProcessGroup ''nccl'' (or_default 4 (cli_world_size c)) (cli_local_rank c),
           MkDistributedAdamW ''pol'' (cli_local_rank c) (or_default 4 (cli_world_size c))
             (or_default (3 / 10000) (cli_pol_lr c)),
           MkDistributedAdamW ''vf'' (cli_local_rank c) (or_default 4 (cli_world_size c))
             (or_default (3 / 10000) (cli_vf_lr c))])"
proof (intro conjI impI)
  assume pr: "prepare a w0 = Inr (a', w)"
  from prepare_new_events [OF pr] obtain cfg where
    ne: "new_events w0 w = cfg @ build_calls a'" and cfg: "set cfg \<subseteq> config_calls a"
    by blast
  from prepare_Inr(1) [OF pr] have "world_size a' = world_size a" "local_rank a' = local_rank a"
    "pol_lr a' = pol_lr a" "vf_lr a' = vf_lr a"
    by auto
  with ne is_dist_config [OF cfg] show "filter is_dist (new_events w0 w) =
        [InitProcessGroup ''nccl'' (world_size a) (local_rank a),
         MkDistributedAdamW ''pol'' (local_rank a) (world_size a) (pol_lr a),
         MkDistributedAdamW ''vf'' (local_rank a) (world_size a) (vf_lr a)]"
    by (simp add: is_dist_build)
next
  assume "iteration a inp (v, w1) = Inr (v', w2)"
  from iteration_trace [OF this] obtain rewards where
    "trace w2 = trace w1 @ iteration_events a inp v rewards" by blast
  from new_events_append [OF this] show "filter is_dist (new_events w1 w2) = []"
    by (simp add: is_dist_iteration)
next
  assume run: "run c files inps = Some (Inr (vn, wn))"
  let ?three = "[InitProcessGroup ''nccl'' (or_default 4 (cli_world_size c)) (cli_local_rank c),
           MkDistributedAdamW ''pol'' (cli_local_rank c) (or_default 4 (cli_world_size c))
             (or_default (3 / 10000) (cli_pol_lr c)),
           MkDistributedAdamW ''vf'' (cli_local_rank c) (or_default 4 (cli_world_size c))
             (or_default (3 / 10000) (cli_vf_lr c))]"
  from run_Some_Inr [OF run] obtain a0 a1 w0 where
    pa: "parse_args c = Inr a0"
    and pr: "prepare a0 \<lparr>fs = files, trace = []\<rparr> = Inr (a1, w0)"
    and lp: "train_loop a1 inps (init_vars a1, w0) = Some (Inr (vn, wn))"
    by blast
  from prepare_new_events [OF pr] obtain cfg where
    tr: "trace w0 = cfg @ build_calls a1" and cfg: "set cfg \<subseteq> config_calls a0"
    by auto
  from prepare_Inr(1) [OF pr] have "world_size a1 = world_size a0" "local_rank a1 = local_rank a0"
    "pol_lr a1 = pol_lr a0" "vf_lr a1 = vf_lr a0"
    by auto
  with tr is_dist_config [OF cfg] parse_args_Inr [OF pa]
  have init: "filter is_dist (trace (snd (init_vars a1, w0))) = ?three"
    by (simp add: is_dist_build)
  have "filter is_dist (result_trace (Inr (vn, wn))) = ?three"
  proof (rule train_loop_trace_invariant [OF lp, where P = "\<lambda>t. filter is_dist t = ?three"])
    show "filter is_dist (trace (snd (init_vars a1, w0))) = ?three" by (rule init)
  next
    fix inp v w v' w'
    assume "filter is_dist (trace w) = ?three" and "iteration a1 inp (v, w) = Inr (v', w')"
    with iteration_trace [OF this(2)] show "filter is_dist (trace w') = ?three"
      by (auto simp: is_dist_iteration)
  next
    fix inp v w e w'
    assume "filter is_dist (trace w) = ?three" and "iteration a1 inp (v, w) = Inl (e, w')"
    with iteration_Inl [OF this(2)] show "filter is_dist (trace w') = ?three"
      by (auto simp: train_event_def)
  qed
  then show "filter is_dist (trace wn) = ?three" by simp
qed

theorem dist_config_witness:
  "\<exists>vn wn. run (no_flags\<lparr>cli_local_rank := Some 0, cli_max_episodes := Some 1\<rparr>) {} [one_path]
             = Some (Inr (vn, wn))
     \<and> filter is_dist (trace wn) =
          [InitProcessGroup ''nccl'' 4 (Some 0),
           MkDistributedAdamW ''pol'' (Some 0) 4 (3 / 10000),
           MkDistributedAdamW ''vf'' (Some 0) 4 (3 / 10000)]"
proof -
  let ?c = "no_flags\<lparr>cli_local_rank := Some 0, cli_max_episodes := Some 1\<rparr>"
  from run_one_path [of 0 "{}"] obtain vn wn where run: "run ?c {} [one_path] = Some (Inr (vn, wn))"
    by blast
  from dist_config [where c = ?c and files = "{}" and inps = "[one_path]" and vn = vn and wn = wn]
  have "run ?c {} [one_path] = Some (Inr (vn, wn)) \<longrightarrow>
        filter is_dist (trace wn) =
          [InitProcessGroup ''nccl'' (or_default 4 (cli_world_size ?c)) (cli_local_rank ?c),
           MkDistributedAdamW ''pol'' (cli_local_rank ?c) (or_default 4 (cli_world_size ?c))
             (or_default (3 / 10000) (cli_pol_lr ?c)),
           MkDistributedAdamW ''vf'' (cli_local_rank ?c) (or_default 4 (cli_world_size ?c))
             (or_default (3 / 10000) (cli_vf_lr ?c))]"
    by blast
  with run have "filter is_dist (trace wn) =
          [InitProcessGroup ''nccl'' 4 (Some 0),
           MkDistributedAdamW ''pol'' (Some 0) 4 (3 / 10000),
           MkDistributedAdamW ''vf'' (Some 0) 4 (3 / 10000)]"
    by (simp add: no_flags_def or_default_def)
  with run show ?thesis by blast
qed

subsection \<open>Seeds\<close>








subsection \<open>The order of the steps\<close>








subsection \<open>Outputs\<close>
















subsection \<open>Checks on the command line\<close>




end
